theory Spec2Isabelle
  imports Main "HOL-Library.AList" "HOL-Library.Char_ord" "HOL-Library.List_Lexorder"
begin

section \<open>Python values, exceptions and strings\<close>

text \<open>
  The toolbox \<^verbatim>\<open>pypsa_academy.py\<close> has three functions: \<^verbatim>\<open>convert_excel_to_csv\<close>,
  \<^verbatim>\<open>solver_selected\<close> and \<^verbatim>\<open>pypsa_viewer\<close>. Every raise of the source is a value
  \<open>Inl e\<close> of a sum type; only subclasses of \<^verbatim>\<open>Exception\<close> are modelled, so a handler
  \<^verbatim>\<open>except Exception\<close> catches every \<open>py_exc\<close>.
\<close>

datatype py_exc =
    KeyError string
  | IndexError
  | AttributeError string
  | UnboundLocalError string
  | ValueError string
  | FileExistsError string
  | IsADirectoryError string
  | FileNotFoundError string
  | OtherError string

text \<open>\<^verbatim>\<open>repr\<close> of a string without quotes or escapes in it.\<close>

definition quoted :: "string \<Rightarrow> string" where
  "quoted s = [CHR 0x27] @ s @ [CHR 0x27]"

text \<open>
  \<^verbatim>\<open>str(e)\<close>. A \<^verbatim>\<open>KeyError\<close> prints its key quoted, the three \<^verbatim>\<open>OSError\<close>s their errno,
  text and file name, a missing attribute the message of \<^verbatim>\<open>getattr\<close> on the network, an
  unbound local the interpreter's own message, which carries the variable name and
  nothing else of the program.
\<close>

fun exc_message :: "py_exc \<Rightarrow> string" where
  "exc_message (KeyError k) = quoted k"
| "exc_message IndexError = ''list index out of range''"
| "exc_message (AttributeError a) =
     quoted ''Network'' @ '' object has no attribute '' @ quoted a"
| "exc_message (UnboundLocalError v) =
     ''cannot access local variable '' @ [CHR 0x27] @ v @ [CHR 0x27] @
     '' where it is not associated with a value''"
| "exc_message (ValueError m) = m"
| "exc_message (FileExistsError p) = ''[Errno 17] File exists: '' @ quoted p"
| "exc_message (IsADirectoryError p) = ''[Errno 21] Is a directory: '' @ quoted p"
| "exc_message (FileNotFoundError p) = ''[Errno 2] No such file or directory: '' @ quoted p"
| "exc_message (OtherError m) = m"

text \<open>\<^verbatim>\<open>s.startswith(p)\<close> and \<^verbatim>\<open>s.endswith(p)\<close>.\<close>

definition startswith :: "string \<Rightarrow> string \<Rightarrow> bool" where
  "startswith s p = (take (length p) s = p)"

definition endswith :: "string \<Rightarrow> string \<Rightarrow> bool" where
  "endswith s p = (length p \<le> length s \<and> drop (length s - length p) s = p)"

text \<open>\<^verbatim>\<open>p in s\<close> for strings, and pandas' \<^verbatim>\<open>Series.str.contains(p)\<close> for a pattern
  without regular-expression metacharacters (the source only passes \<^verbatim>\<open>"Input"\<close> and
  \<^verbatim>\<open>"Output"\<close>): \<open>p\<close> occurs somewhere in \<open>s\<close>.\<close>

fun str_contains :: "string \<Rightarrow> string \<Rightarrow> bool" where
  "str_contains p [] = (p = [])"
| "str_contains p (c # cs) = (startswith (c # cs) p \<or> str_contains p cs)"

text \<open>\<^verbatim>\<open>s.replace(old, new)\<close>: every non-overlapping occurrence of \<open>old\<close>, scanning from
  the left. The source only calls it with \<^verbatim>\<open>old = ".csv"\<close>; for an empty \<open>old\<close> (where
  Python interleaves \<open>new\<close>) the string is returned as it is.\<close>

function str_replace :: "string \<Rightarrow> string \<Rightarrow> string \<Rightarrow> string" where
  "str_replace old new [] = []"
| "str_replace old new (c # cs) =
     (if old \<noteq> [] \<and> startswith (c # cs) old
      then new @ str_replace old new (drop (length old - 1) cs)
      else c # str_replace old new cs)"
  by pat_completeness auto
termination
  by (relation "measure (\<lambda>(old, new, s). length s)") auto

text \<open>\<^verbatim>\<open>sep.join(xs)\<close>.\<close>

fun join :: "string \<Rightarrow> string list \<Rightarrow> string" where
  "join sep [] = []"
| "join sep [x] = x"
| "join sep (x # y # ys) = x @ sep @ join sep (y # ys)"

section \<open>The solver prober: \<^verbatim>\<open>solver_selected\<close>\<close>

text \<open>
  What the prober prints and clears, in order, and (a ghost field) the solver names it has
  passed to \<^verbatim>\<open>test_network.optimize\<close>.
\<close>

datatype out_event = Print string | ClearOutput

record prober_state =
  stdout :: "out_event list"
  attempted :: "string list"

text \<open>
  \<^verbatim>\<open>simple_network(solver_name)\<close>. The body of its \<^verbatim>\<open>try\<close> builds the fixed three-bus
  network and calls \<^verbatim>\<open>optimize(solver_name=solver_name)\<close>; which solvers are installed is
  the environment's, so the outcome of that body is the parameter \<open>optimize\<close>: \<open>Inl e\<close>
  when it raises \<open>e\<close>, \<open>Inr r\<close> when it returns the (status, condition) pair \<open>r\<close>, which
  is never \<^verbatim>\<open>None\<close>. The function returns \<^verbatim>\<open>None\<close> exactly in its \<^verbatim>\<open>except\<close> branch.
\<close>

definition simple_network ::
  "(string \<Rightarrow> py_exc + 'r) \<Rightarrow> string \<Rightarrow> prober_state \<Rightarrow> prober_state \<times> 'r option" where
  "simple_network optimize solver_name st =
     (let st1 = st\<lparr>attempted := attempted st @ [solver_name]\<rparr>
      in case optimize solver_name of
           Inr solved \<Rightarrow> (st1\<lparr>stdout := stdout st1 @ [ClearOutput]\<rparr>, Some solved)
         | Inl e \<Rightarrow>
             (st1\<lparr>stdout := stdout st1 @
                [Print (''Solver '' @ solver_name @ '' failed: '' @ exc_message e)]\<rparr>, None))"

definition solver_options :: "string list" where
  "solver_options = [''gurobi'', ''cplex'', ''mosek'', ''highs'', ''glpk'']"

text \<open>The \<^verbatim>\<open>for solver in solver_options\<close> loop of \<^verbatim>\<open>find_solver\<close>: \<open>Some solver\<close> is the
  \<^verbatim>\<open>return solver\<close> inside the loop, \<open>None\<close> is the loop running to its end.\<close>

fun find_solver_loop ::
  "(string \<Rightarrow> py_exc + 'r) \<Rightarrow> string list \<Rightarrow> prober_state \<Rightarrow> prober_state \<times> string option" where
  "find_solver_loop optimize [] st = (st, None)"
| "find_solver_loop optimize (solver # rest) st =
     (let st1 = st\<lparr>stdout := stdout st @ [Print (''Testing solver: '' @ solver)]\<rparr>;
          (st2, result) = simple_network optimize solver st1
      in case result of
           Some r \<Rightarrow> (st2\<lparr>stdout := stdout st2 @ [Print (''Solver '' @ solver @ '' succeeded!'')]\<rparr>,
                      Some solver)
         | None \<Rightarrow> find_solver_loop optimize rest st2)"

definition no_solver_message :: "string list \<Rightarrow> string" where
  "no_solver_message opts =
     ''No suitable solver found. Please install one of the solvers: '' @ join '', '' opts"

text \<open>\<^verbatim>\<open>find_solver\<close> over a candidate list; the source's list is \<open>solver_options\<close>.\<close>

definition find_solver_in ::
  "string list \<Rightarrow> (string \<Rightarrow> py_exc + 'r) \<Rightarrow> prober_state \<Rightarrow> prober_state \<times> (py_exc + string)" where
  "find_solver_in opts optimize st =
     (case find_solver_loop optimize opts st of
        (st', Some solver) \<Rightarrow> (st', Inr solver)
      | (st', None) \<Rightarrow> (st', Inl (ValueError (no_solver_message opts))))"

definition find_solver ::
  "(string \<Rightarrow> py_exc + 'r) \<Rightarrow> prober_state \<Rightarrow> prober_state \<times> (py_exc + string)" where
  "find_solver = find_solver_in solver_options"

text \<open>
  \<^verbatim>\<open>solver_selected\<close>: the \<^verbatim>\<open>try\<close> binds the local \<^verbatim>\<open>solver\<close> and prints it; the handler
  \<^verbatim>\<open>except ValueError as e: print(e)\<close> catches the error of \<^verbatim>\<open>find_solver\<close> (its only
  raise) and leaves \<^verbatim>\<open>solver\<close> unbound, so the \<^verbatim>\<open>return solver\<close> after the handler raises
  \<^verbatim>\<open>UnboundLocalError\<close>. Any other exception would leave the \<^verbatim>\<open>try\<close> uncaught.
\<close>

definition solver_selected_in ::
  "string list \<Rightarrow> (string \<Rightarrow> py_exc + 'r) \<Rightarrow> prober_state \<Rightarrow> prober_state \<times> (py_exc + string)" where
  "solver_selected_in opts optimize st =
     (case find_solver_in opts optimize st of
        (st', Inr solver) \<Rightarrow>
          (st'\<lparr>stdout := stdout st' @ [Print (''Selected solver: '' @ solver)]\<rparr>, Inr solver)
      | (st', Inl (ValueError m)) \<Rightarrow>
          (st'\<lparr>stdout := stdout st' @ [Print m]\<rparr>, Inl (UnboundLocalError ''solver''))
      | (st', Inl e) \<Rightarrow> (st', Inl e))"

definition solver_selected ::
  "(string \<Rightarrow> py_exc + 'r) \<Rightarrow> prober_state \<Rightarrow> prober_state \<times> (py_exc + string)" where
  "solver_selected = solver_selected_in solver_options"

definition names_all :: "string list \<Rightarrow> string \<Rightarrow> bool" where
  "names_all opts msg = list_all (\<lambda>s. str_contains s msg) opts"

definition init_prober :: prober_state where
  "init_prober = \<lparr>stdout = [], attempted = []\<rparr>"

section \<open>The network object\<close>

text \<open>
  The parts of a \<^verbatim>\<open>pypsa.Network\<close> the toolbox reads. A pandas \<^verbatim>\<open>DataFrame\<close> is its row
  labels and its columns in order, each column holding one cell per row; the cell type is
  left open.
\<close>

record 'v dataframe =
  index :: "string list"
  columns :: "(string \<times> 'v list) list"

text \<open>A row of \<^verbatim>\<open>component_attrs[key]\<close>: the index label (the attribute's name) and the
  two columns the source reads.\<close>

record attr_row =
  attr_name :: string
  status :: string
  varying :: bool

text \<open>
  \<open>components\<close> maps a component type to \<^verbatim>\<open>components[key]['list_name']\<close>;
  \<open>component_attrs\<close> keeps the iteration order of the dictionary;
  \<open>static_data\<close> is \<^verbatim>\<open>getattr(network, list_name)\<close> and \<open>dynamic_data\<close> is
  \<^verbatim>\<open>getattr(network, list_name + "_t")[attribute]\<close>, both keyed by list name.
\<close>

record 'v network =
  components :: "(string \<times> string) list"
  component_attrs :: "(string \<times> attr_row list) list"
  static_data :: "(string \<times> 'v dataframe) list"
  dynamic_data :: "(string \<times> (string \<times> 'v dataframe) list) list"

text \<open>\<^verbatim>\<open>df.empty\<close>: an axis of length 0.\<close>

definition empty_df :: "'v dataframe \<Rightarrow> bool" where
  "empty_df df = (index df = [] \<or> columns df = [])"

text \<open>\<^verbatim>\<open>df[labels]\<close> with a list of column labels: the columns in the order asked for, a
  \<^verbatim>\<open>KeyError\<close> when a label is not a column.\<close>

fun getitem_columns :: "(string \<times> 'v list) list \<Rightarrow> string list \<Rightarrow> py_exc + (string \<times> 'v list) list" where
  "getitem_columns cs [] = Inr []"
| "getitem_columns cs (a # as) =
     (case map_of cs a of
        None \<Rightarrow> Inl (KeyError a)
      | Some col \<Rightarrow>
          (case getitem_columns cs as of
             Inl e \<Rightarrow> Inl e
           | Inr r \<Rightarrow> Inr ((a, col) # r)))"

definition getitem :: "'v dataframe \<Rightarrow> string list \<Rightarrow> py_exc + 'v dataframe" where
  "getitem df labels =
     (case getitem_columns (columns df) labels of
        Inl e \<Rightarrow> Inl e
      | Inr cs \<Rightarrow> Inr \<lparr>index = index df, columns = cs\<rparr>)"

section \<open>The sheet-to-CSV converter: \<^verbatim>\<open>convert_excel_to_csv\<close>\<close>

subsection \<open>The allow-list \<^verbatim>\<open>components\<close>\<close>

text \<open>The index of the rows of \<^verbatim>\<open>component_attrs[key]\<close> whose status contains
  \<^verbatim>\<open>"Input"\<close> and whose \<^verbatim>\<open>varying\<close> is true.\<close>

definition varying_inputs :: "attr_row list \<Rightarrow> string list" where
  "varying_inputs df =
     map attr_name (filter (\<lambda>a. str_contains ''Input'' (status a) \<and> varying a = True) df)"

text \<open>\<^verbatim>\<open>list(...) or [None]\<close>: the list itself unless it is empty.\<close>

definition or_None :: "string list \<Rightarrow> string option list" where
  "or_None xs = (if xs = [] then [None] else map Some xs)"

text \<open>The element of the comprehension,
  \<^verbatim>\<open>f"{list_name}-{dict_value}" if dict_value else list_name\<close>; \<^verbatim>\<open>None\<close> and the empty
  string are the false values.\<close>

definition file_name :: "string \<Rightarrow> string option \<Rightarrow> string" where
  "file_name list_name dict_value =
     (case dict_value of
        None \<Rightarrow> list_name
      | Some a \<Rightarrow> if a = [] then list_name else list_name @ ''-'' @ a)"

text \<open>The set comprehension, over the keys of \<^verbatim>\<open>n.component_attrs\<close> in order;
  \<^verbatim>\<open>n.components[key]\<close> raises \<^verbatim>\<open>KeyError\<close> for a key it does not have.\<close>

fun allow_list :: "(string \<times> string) list \<Rightarrow> (string \<times> attr_row list) list \<Rightarrow> py_exc + string set" where
  "allow_list comps [] = Inr {}"
| "allow_list comps ((key, df) # rest) =
     (case map_of comps key of
        None \<Rightarrow> Inl (KeyError key)
      | Some list_name \<Rightarrow>
          (case allow_list comps rest of
             Inl e \<Rightarrow> Inl e
           | Inr names \<Rightarrow> Inr (set (map (file_name list_name) (or_None (varying_inputs df))) \<union> names)))"

subsection \<open>The output directory\<close>

datatype entry = File string | Folder

text \<open>What is at \<^verbatim>\<open>csv_folder_path\<close>: nothing, something that is not a directory, or a
  directory with its entries by name.\<close>

datatype fs_node = Missing | NotADirectory | Directory "(string \<times> entry) list"

datatype log_event = Info string | Error string | Stdout string

record conv_state =
  folder :: fs_node
  logged :: "log_event list"

text \<open>\<^verbatim>\<open>os.makedirs(path, exist_ok=True)\<close>; the empty path names nothing that could be
  created.\<close>

fun os_makedirs :: "string \<Rightarrow> fs_node \<Rightarrow> py_exc + (string \<times> entry) list" where
  "os_makedirs [] node = Inl (FileNotFoundError [])"
| "os_makedirs (c # cs) Missing = Inr []"
| "os_makedirs (c # cs) NotADirectory = Inl (FileExistsError (c # cs))"
| "os_makedirs (c # cs) (Directory d) = Inr d"

definition os_listdir :: "(string \<times> entry) list \<Rightarrow> string list" where
  "os_listdir d = map fst d"

text \<open>\<^verbatim>\<open>os.path.join(a, b)\<close> (posix).\<close>

definition os_path_join :: "string \<Rightarrow> string \<Rightarrow> string" where
  "os_path_join a b =
     (if startswith b ''/'' then b
      else if a = [] \<or> endswith a ''/'' then a @ b
      else a @ ''/'' @ b)"

text \<open>\<^verbatim>\<open>os.remove\<close> of an entry of the directory.\<close>

definition os_remove :: "string \<Rightarrow> string \<Rightarrow> (string \<times> entry) list \<Rightarrow> py_exc + (string \<times> entry) list" where
  "os_remove path item d =
     (case map_of d item of
        None \<Rightarrow> Inl (FileNotFoundError (os_path_join path item))
      | Some Folder \<Rightarrow> Inl (IsADirectoryError (os_path_join path item))
      | Some (File c) \<Rightarrow> Inr (filter (\<lambda>kv. fst kv \<noteq> item) d))"

text \<open>The test of the deletion loop.\<close>

definition relevant :: "string set \<Rightarrow> string \<Rightarrow> bool" where
  "relevant comps item = (endswith item ''.csv'' \<and> str_replace ''.csv'' [] item \<in> comps)"

text \<open>The loop \<^verbatim>\<open>for item in os.listdir(csv_folder_path)\<close>; an exception of
  \<^verbatim>\<open>os.remove\<close> ends it with the directory as it is then.\<close>

fun clear_relevant ::
  "string set \<Rightarrow> string \<Rightarrow> string list \<Rightarrow> (string \<times> entry) list \<Rightarrow> (string \<times> entry) list \<times> py_exc option" where
  "clear_relevant comps path [] d = (d, None)"
| "clear_relevant comps path (item # items) d =
     (if relevant comps item
      then (case os_remove path item d of
              Inl e \<Rightarrow> (d, Some e)
            | Inr d' \<Rightarrow> clear_relevant comps path items d')
      else clear_relevant comps path items d)"

subsection \<open>The workbook and the worker pool\<close>

text \<open>
  An opened \<^verbatim>\<open>pd.ExcelFile\<close>: its sheet names in order, each with what
  \<^verbatim>\<open>xls.parse(sheet_name)\<close> followed by \<^verbatim>\<open>to_csv(index=False)\<close> gives: an exception, or
  the CSV text.
\<close>

type_synonym workbook = "(string \<times> (py_exc + string)) list"

definition sheet_names :: "workbook \<Rightarrow> string list" where
  "sheet_names xls = map fst xls"

text \<open>\<^verbatim>\<open>convert_sheet_to_csv\<close>; writing over a directory raises.\<close>

definition convert_sheet_to_csv ::
  "workbook \<Rightarrow> string \<Rightarrow> string \<Rightarrow> (string \<times> entry) list \<times> log_event list \<Rightarrow>
   ((string \<times> entry) list \<times> log_event list) \<times> (py_exc + string)" where
  "convert_sheet_to_csv xls sheet_name csv_folder_path st =
     (case map_of xls sheet_name of
        None \<Rightarrow> (st, Inl (ValueError sheet_name))
      | Some (Inl e) \<Rightarrow> (st, Inl e)
      | Some (Inr df) \<Rightarrow>
          (let csv_file_path = os_path_join csv_folder_path (sheet_name @ ''.csv'')
           in case map_of (fst st) (sheet_name @ ''.csv'') of
                Some Folder \<Rightarrow> (st, Inl (IsADirectoryError csv_file_path))
              | _ \<Rightarrow>
                  ((AList.update (sheet_name @ ''.csv'') (File df) (fst st),
                    snd st @ [Info (''Converted '' @ sheet_name @ '' to CSV.'')]),
                   Inr csv_file_path)))"

text \<open>
  The futures of the pool. Every submitted conversion runs to its end: leaving the
  \<^verbatim>\<open>with ThreadPoolExecutor()\<close> block waits for all of them, also when a
  \<^verbatim>\<open>future.result()\<close> has raised. The conversions write distinct files, so the files
  and the results do not depend on how the workers are scheduled; they are run here in
  the order of submission, which fixes one of the possible orders of their
  \<open>Converted\<close> log records.
\<close>

fun run_futures ::
  "workbook \<Rightarrow> string list \<Rightarrow> string \<Rightarrow> (string \<times> entry) list \<times> log_event list \<Rightarrow>
   ((string \<times> entry) list \<times> log_event list) \<times> (py_exc + string) list" where
  "run_futures xls [] csv_folder_path st = (st, [])"
| "run_futures xls (sheet_name # rest) csv_folder_path st =
     (let (st1, r) = convert_sheet_to_csv xls sheet_name csv_folder_path st;
          (st2, rs) = run_futures xls rest csv_folder_path st1
      in (st2, r # rs))"

text \<open>\<^verbatim>\<open>for future in futures: created_csv_files.append(future.result())\<close>.\<close>

fun collect_results :: "string list \<Rightarrow> (py_exc + string) list \<Rightarrow> py_exc + string list" where
  "collect_results created_csv_files [] = Inr created_csv_files"
| "collect_results created_csv_files (Inl e # futures) = Inl e"
| "collect_results created_csv_files (Inr p # futures) = collect_results (created_csv_files @ [p]) futures"

subsection \<open>\<^verbatim>\<open>convert_excel_to_csv\<close>\<close>

text \<open>What the function can return: a string or a list of strings.\<close>

datatype py_value = PyStr string | PyList "string list"

text \<open>
  \<open>n\<close> is the fresh \<^verbatim>\<open>pypsa.Network()\<close> and \<open>ExcelFile\<close> is \<^verbatim>\<open>pd.ExcelFile\<close>, the
  outcome of opening a path. The allow-list, \<^verbatim>\<open>os.makedirs\<close> and the deletion loop stand
  before the \<^verbatim>\<open>try\<close>. Inside it, an exception goes to the handler, which logs it and
  executes \<^verbatim>\<open>return []\<close>; then the \<^verbatim>\<open>finally\<close> clause reads the local \<^verbatim>\<open>xls\<close>, which is
  unbound when \<^verbatim>\<open>pd.ExcelFile\<close> itself has raised, and the \<^verbatim>\<open>UnboundLocalError\<close> of that
  read replaces the pending return.
\<close>

definition convert_excel_to_csv ::
  "'v network \<Rightarrow> (string \<Rightarrow> py_exc + workbook) \<Rightarrow> string \<Rightarrow> string \<Rightarrow> conv_state \<Rightarrow>
   conv_state \<times> (py_exc + py_value)" where
  "convert_excel_to_csv n ExcelFile excel_file_path csv_folder_path st =
     (case allow_list (components n) (component_attrs n) of
        Inl e \<Rightarrow> (st, Inl e)
      | Inr comps \<Rightarrow>
     (case os_makedirs csv_folder_path (folder st) of
        Inl e \<Rightarrow> (st, Inl e)
      | Inr d \<Rightarrow>
     (case clear_relevant comps csv_folder_path (os_listdir d) d of
        (d1, Some e) \<Rightarrow> (st\<lparr>folder := Directory d1\<rparr>, Inl e)
      | (d1, None) \<Rightarrow>
     (case ExcelFile excel_file_path of
        Inl e \<Rightarrow>
          (\<lparr>folder = Directory d1,
            logged = logged st @ [Error (''Error converting Excel to CSV: '' @ exc_message e)]\<rparr>,
           Inl (UnboundLocalError ''xls''))
      | Inr xls \<Rightarrow>
          (let ((d2, lg), futures) =
                 run_futures xls (filter (\<lambda>sheet_name. sheet_name \<in> comps) (sheet_names xls))
                   csv_folder_path (d1, logged st)
           in case collect_results [] futures of
                Inl e \<Rightarrow>
                  (\<lparr>folder = Directory d2,
                    logged = lg @ [Error (''Error converting Excel to CSV: '' @ exc_message e),
                                   Stdout ''Excel file is closed'']\<rparr>,
                   Inr (PyList []))
              | Inr created_csv_files \<Rightarrow>
                  (\<lparr>folder = Directory d2,
                    logged = lg @ [Stdout ''Excel file is closed'',
                                   Info (''Conversion complete. CSV files are saved in '' @ [CHR 0x27] @
                                         csv_folder_path @ [CHR 0x27])]\<rparr>,
                   Inr (PyStr csv_folder_path)))))))"

section \<open>The interactive viewer: \<^verbatim>\<open>pypsa_viewer\<close>\<close>

text \<open>A \<^verbatim>\<open>go.Scatter\<close> trace and the figure of the plot branch.\<close>

record 'v trace =
  x :: "string list"
  y :: "'v list"
  mode :: string
  name :: string

record 'v figure =
  traces :: "'v trace list"
  title :: string
  xaxis_title :: string
  yaxis_title :: string

text \<open>
  What the viewer sends to the display: \<^verbatim>\<open>clear_output()\<close>, \<^verbatim>\<open>print\<close>, \<^verbatim>\<open>display\<close> of a
  table, \<^verbatim>\<open>display(dropdown, radio1, radio2, confirm_button)\<close> (the dropdown's options and
  value, the options of the two radios),
  \<^verbatim>\<open>display(new_dropdown, new_radio, new_confirm_button)\<close> (the dropdown's options and
  value, the radio's options and value), and \<^verbatim>\<open>fig.show()\<close>.
\<close>

datatype 'v view_event =
    Cleared
  | Printed string
  | Displayed "'v dataframe"
  | DisplayedSelectors "string list" string "string list" "string list"
  | DisplayedWidgets "string list" string "string list" string
  | Shown "'v figure"

text \<open>The shared dictionary \<^verbatim>\<open>state\<close> (its one key \<^verbatim>\<open>return_file\<close>) and the display.\<close>

record 'v view_state =
  return_file :: "'v dataframe option"
  display :: "'v view_event list"

definition io_types :: "string list" where
  "io_types = [''Input'', ''Output'']"

definition type_options :: "string list" where
  "type_options = [''static'', ''varying'']"

definition view_type :: "string list" where
  "view_type = [''Plot'', ''Table'']"

text \<open>
  \<^verbatim>\<open>pypsa_viewer\<close> up to its \<^verbatim>\<open>return state\<close>: the sorted component types
  (\<^verbatim>\<open>network.all_components\<close> is the key set of \<^verbatim>\<open>network.components\<close> without
  \<^verbatim>\<open>"Network"\<close>), the first-level
  widgets with \<^verbatim>\<open>select_component[0]\<close> preselected, and the record, which starts with
  \<^verbatim>\<open>return_file = None\<close>. The handlers below run later, on the same record.
\<close>

definition pypsa_viewer :: "'v network \<Rightarrow> py_exc + 'v view_state" where
  "pypsa_viewer network =
     (let select_component = sort (filter (\<lambda>key. key \<noteq> ''Network'') (map fst (components network)))
      in case select_component of
           [] \<Rightarrow> Inl IndexError
         | c # _ \<Rightarrow>
             Inr \<lparr>return_file = None,
                  display = [Cleared, DisplayedSelectors select_component c io_types type_options]\<rparr>)"

text \<open>Line 199: \<^verbatim>\<open>&\<close> binds tighter than \<^verbatim>\<open>==\<close>, so the mask is
  \<^verbatim>\<open>(status.str.contains(io_data) & varying) == True\<close>.\<close>

definition varying_attributes_of :: "string \<Rightarrow> attr_row list \<Rightarrow> string list" where
  "varying_attributes_of io_data df =
     map attr_name (filter (\<lambda>a. (str_contains io_data (status a) \<and> varying a) = True) df)"

text \<open>Lines 200 to 202: the index of the rows whose status contains \<open>io_data\<close>, then
  \<^verbatim>\<open>remove('name')\<close>, which takes out the first occurrence.\<close>

definition static_attributes_of :: "string \<Rightarrow> attr_row list \<Rightarrow> string list" where
  "static_attributes_of io_data df =
     remove1 ''name'' (map attr_name (filter (\<lambda>a. str_contains io_data (status a)) df))"

text \<open>Line 257: the filter against \<^verbatim>\<open>network.generators.columns\<close>.\<close>

definition valid_attributes_of :: "'v dataframe \<Rightarrow> string list \<Rightarrow> string list" where
  "valid_attributes_of generators static_attributes =
     filter (\<lambda>attr. attr \<in> set (map fst (columns generators))) static_attributes"

definition no_attributes_warning :: string where
  "no_attributes_warning = ''Warning: None of the static attributes are found in network.generators columns''"

text \<open>
  \<^verbatim>\<open>on_confirm_clicked\<close>, with the values of the three first-level widgets as arguments.
  In the varying branch \<^verbatim>\<open>varying_attributes[0]\<close> is evaluated to build the dropdown.
\<close>

definition on_confirm_clicked ::
  "'v network \<Rightarrow> string \<Rightarrow> string \<Rightarrow> string \<Rightarrow> 'v view_state \<Rightarrow> 'v view_state \<times> (py_exc + unit)" where
  "on_confirm_clicked network val io_data type_var st =
     (case map_of (component_attrs network) val of
        None \<Rightarrow> (st, Inl (KeyError val))
      | Some df \<Rightarrow>
          (let varying_attributes = varying_attributes_of io_data df;
               static_attributes = static_attributes_of io_data df
           in if type_var = type_options ! 1
              then (case varying_attributes of
                      [] \<Rightarrow> (st, Inl IndexError)
                    | v0 # _ \<Rightarrow>
                        (st\<lparr>display := display st @
                             [DisplayedWidgets varying_attributes v0 view_type (view_type ! 0)]\<rparr>,
                         Inr ()))
              else (let st1 = st\<lparr>display := display st @ [Cleared]\<rparr>
                    in case map_of (components network) val of
                         None \<Rightarrow> (st1, Inl (KeyError val))
                       | Some list_name \<Rightarrow>
                    (case map_of (static_data network) list_name of
                         None \<Rightarrow> (st1, Inl (AttributeError list_name))
                       | Some component_data \<Rightarrow>
                    (case map_of (static_data network) ''generators'' of
                         None \<Rightarrow> (st1, Inl (AttributeError ''generators''))
                       | Some generators \<Rightarrow>
                    (let valid_attributes = valid_attributes_of generators static_attributes
                     in if valid_attributes \<noteq> []
                        then (case getitem component_data valid_attributes of
                                Inl e \<Rightarrow> (st1, Inl e)
                              | Inr shown \<Rightarrow>
                                  (st1\<lparr>return_file := Some shown,
                                       display := display st1 @ [Displayed shown]\<rparr>, Inr ()))
                        else (st1\<lparr>display := display st1 @ [Printed no_attributes_warning]\<rparr>,
                              Inr ())))))))"

text \<open>Lines 237 to 240: one trace per column of \<^verbatim>\<open>time_data\<close>, then the layout.\<close>

definition time_series_figure :: "string \<Rightarrow> string \<Rightarrow> 'v dataframe \<Rightarrow> 'v figure" where
  "time_series_figure val new_selected_dropdown time_data =
     \<lparr>traces = map (\<lambda>col. \<lparr>x = index time_data, y = snd col, mode = ''lines'', name = fst col\<rparr>)
                    (columns time_data),
      title = val @ '' '' @ new_selected_dropdown @ '' Time Series'',
      xaxis_title = ''Time'',
      yaxis_title = ''Value''\<rparr>"

text \<open>
  \<^verbatim>\<open>on_new_confirm_clicked\<close>: \<open>val\<close> and \<open>type_var\<close> are the values its closure
  captured, the next two arguments the values of the second-level widgets.
\<close>

definition on_new_confirm_clicked ::
  "'v network \<Rightarrow> string \<Rightarrow> string \<Rightarrow> string \<Rightarrow> string \<Rightarrow> 'v view_state \<Rightarrow>
   'v view_state \<times> (py_exc + unit)" where
  "on_new_confirm_clicked network val type_var new_selected_dropdown new_selected_radio st =
     (let st1 = st\<lparr>display := display st @ [Cleared]\<rparr>
      in if type_var = ''varying''
         then (case map_of (components network) val of
                 None \<Rightarrow> (st1, Inl (KeyError val))
               | Some list_name \<Rightarrow>
              (case map_of (dynamic_data network) list_name of
                 None \<Rightarrow> (st1, Inl (AttributeError (list_name @ ''_t'')))
               | Some series \<Rightarrow>
              (case map_of series new_selected_dropdown of
                 None \<Rightarrow> (st1, Inl (KeyError new_selected_dropdown))
               | Some time_data \<Rightarrow>
                   if new_selected_radio = ''Table''
                   then (st1\<lparr>return_file := Some time_data,
                             display := display st1 @ [Displayed time_data]\<rparr>, Inr ())
                   else if new_selected_radio = ''Plot''
                   then (if empty_df time_data
                         then (st1\<lparr>display := display st1 @ [Printed ''No data to plot''],
                                   return_file := None\<rparr>, Inr ())
                         else (st1\<lparr>display := display st1 @
                                     [Shown (time_series_figure val new_selected_dropdown time_data)],
                                   return_file := Some time_data\<rparr>, Inr ()))
                   else (st1, Inr ()))))
         else (st1, Inr ()))"

section \<open>A small network and workbook\<close>

text \<open>
  Three component types with the statuses PyPSA gives them: a bus (one time-varying
  input), a carrier (none) and a generator (one time-varying input, one time-varying
  output, one static output). Cells are kept as text.
\<close>

definition example_network :: "string network" where
  "example_network =
     \<lparr>components = [(''Bus'', ''buses''), (''Carrier'', ''carriers''), (''Generator'', ''generators'')],
      component_attrs =
        [(''Bus'',
            [\<lparr>attr_name = ''name'', status = ''Input (required)'', varying = False\<rparr>,
             \<lparr>attr_name = ''v_nom'', status = ''Input (optional)'', varying = False\<rparr>,
             \<lparr>attr_name = ''carrier'', status = ''Input (optional)'', varying = False\<rparr>,
             \<lparr>attr_name = ''v_mag_pu_set'', status = ''Input (optional)'', varying = True\<rparr>,
             \<lparr>attr_name = ''p'', status = ''Output'', varying = True\<rparr>]),
         (''Carrier'',
            [\<lparr>attr_name = ''name'', status = ''Input (required)'', varying = False\<rparr>,
             \<lparr>attr_name = ''co2_emissions'', status = ''Input (optional)'', varying = False\<rparr>]),
         (''Generator'',
            [\<lparr>attr_name = ''name'', status = ''Input (required)'', varying = False\<rparr>,
             \<lparr>attr_name = ''bus'', status = ''Input (required)'', varying = False\<rparr>,
             \<lparr>attr_name = ''p_nom'', status = ''Input (optional)'', varying = False\<rparr>,
             \<lparr>attr_name = ''carrier'', status = ''Input (optional)'', varying = False\<rparr>,
             \<lparr>attr_name = ''p_max_pu'', status = ''Input (optional)'', varying = True\<rparr>,
             \<lparr>attr_name = ''p'', status = ''Output'', varying = True\<rparr>,
             \<lparr>attr_name = ''p_nom_opt'', status = ''Output'', varying = False\<rparr>])],
      static_data =
        [(''buses'',
            \<lparr>index = [''Bus1''],
             columns = [(''v_nom'', [''1.0'']), (''carrier'', [''AC'']), (''v_mag_pu_set'', [''1.0''])]\<rparr>),
         (''carriers'',
            \<lparr>index = [''AC''], columns = [(''co2_emissions'', [''0.0''])]\<rparr>),
         (''generators'',
            \<lparr>index = [''Gen1'', ''Gen2''],
             columns = [(''bus'', [''Bus1'', ''Bus1'']), (''p_nom'', [''30'', ''40'']),
                        (''carrier'', [''AC'', ''AC'']), (''p_max_pu'', [''1.0'', ''1.0'']),
                        (''p_nom_opt'', [''0.0'', ''0.0''])]\<rparr>)],
      dynamic_data =
        [(''buses'',
            [(''v_mag_pu_set'', \<lparr>index = [''t0'', ''t1''], columns = []\<rparr>),
             (''p'', \<lparr>index = [''t0'', ''t1''], columns = [(''Bus1'', [''0'', ''0''])]\<rparr>)]),
         (''carriers'', []),
         (''generators'',
            [(''p_max_pu'', \<lparr>index = [''t0'', ''t1''], columns = []\<rparr>),
             (''p'', \<lparr>index = [''t0'', ''t1''],
                     columns = [(''Gen1'', [''10'', ''15'']), (''Gen2'', [''0'', ''5''])]\<rparr>)])]\<rparr>"

text \<open>The same network after \<^verbatim>\<open>network.generators["p"] = ...\<close>: the generator table has
  one column more, named like a time-varying output of the bus.\<close>

definition extended_network :: "string network" where
  "extended_network =
     example_network\<lparr>static_data :=
       [(''buses'',
            \<lparr>index = [''Bus1''],
             columns = [(''v_nom'', [''1.0'']), (''carrier'', [''AC'']), (''v_mag_pu_set'', [''1.0''])]\<rparr>),
        (''carriers'',
            \<lparr>index = [''AC''], columns = [(''co2_emissions'', [''0.0''])]\<rparr>),
        (''generators'',
            \<lparr>index = [''Gen1'', ''Gen2''],
             columns = [(''bus'', [''Bus1'', ''Bus1'']), (''p_nom'', [''30'', ''40'']),
                        (''carrier'', [''AC'', ''AC'']), (''p_max_pu'', [''1.0'', ''1.0'']),
                        (''p_nom_opt'', [''0.0'', ''0.0'']), (''p'', [''10'', ''0''])]\<rparr>)]\<rparr>"

text \<open>A workbook with a sheet for each of the generator's two files and one for the
  carriers, all of which parse.\<close>

definition example_workbook :: workbook where
  "example_workbook =
     [(''generators'', Inr ''name,bus,p_nom''),
      (''generators-p_max_pu'', Inr ''snapshot,Gen1''),
      (''carriers'', Inr ''name,co2_emissions'')]"

text \<open>A workbook whose carrier sheet cannot be parsed.\<close>

definition broken_workbook :: workbook where
  "broken_workbook =
     [(''carriers'', Inl (OtherError ''bad sheet'')),
      (''generators-p_max_pu'', Inr ''snapshot,Gen1'')]"

text \<open>The two workbooks on disk; any other path does not open.\<close>

definition example_open :: "string \<Rightarrow> py_exc + workbook" where
  "example_open path =
     (if path = ''network.xlsx'' then Inr example_workbook
      else if path = ''broken.xlsx'' then Inr broken_workbook
      else Inl (FileNotFoundError path))"

section \<open>Facts about the string functions\<close>

lemma startswith_iff: "startswith s p \<longleftrightarrow> (\<exists>b. s = p @ b)"
  unfolding startswith_def
  by (metis append_eq_conv_conj)

lemma str_contains_iff: "str_contains p s \<longleftrightarrow> (\<exists>a b. s = a @ p @ b)"
proof (induction s)
  case Nil
  show ?case by auto
next
  case (Cons c cs)
  show ?case
  proof
    assume "str_contains p (c # cs)"
    then consider "startswith (c # cs) p" | "str_contains p cs" by auto
    then show "\<exists>a b. c # cs = a @ p @ b"
    proof cases
      case 1
      then obtain b where "c # cs = p @ b" by (auto simp: startswith_iff)
      then have "c # cs = [] @ p @ b" by simp
      then show ?thesis by blast
    next
      case 2
      with Cons.IH obtain a b where "cs = a @ p @ b" by blast
      then have "c # cs = (c # a) @ p @ b" by simp
      then show ?thesis by blast
    qed
  next
    assume "\<exists>a b. c # cs = a @ p @ b"
    then obtain a b where ab: "c # cs = a @ p @ b" by blast
    show "str_contains p (c # cs)"
    proof (cases a)
      case Nil
      with ab have "startswith (c # cs) p" by (simp add: startswith_def)
      then show ?thesis by simp
    next
      case (Cons x a')
      with ab have "cs = a' @ p @ b" by simp
      with Cons.IH have "str_contains p cs" by blast
      then show ?thesis by simp
    qed
  qed
qed

lemma join_contains: "s \<in> set opts \<Longrightarrow> str_contains s (join sep opts)"
proof (induction sep opts rule: join.induct)
  case (1 sep)
  then show ?case by simp
next
  case (2 sep x)
  then have "x = [] @ s @ []" by simp
  then show ?case unfolding join.simps str_contains_iff by blast
next
  case (3 sep x y ys)
  show ?case
  proof (cases "s = x")
    case True
    then have "join sep (x # y # ys) = [] @ s @ (sep @ join sep (y # ys))" by simp
    then show ?thesis unfolding str_contains_iff by blast
  next
    case False
    with 3 have "str_contains s (join sep (y # ys))" by simp
    then obtain a b where "join sep (y # ys) = a @ s @ b" unfolding str_contains_iff by blast
    then have "join sep (x # y # ys) = (x @ sep @ a) @ s @ b" by simp
    then show ?thesis unfolding str_contains_iff by blast
  qed
qed

lemma names_all_message: "names_all opts (no_solver_message opts)"
proof -
  have "str_contains s (no_solver_message opts)" if "s \<in> set opts" for s
  proof -
    from join_contains[OF that] obtain a b where "join '', '' opts = a @ s @ b"
      unfolding str_contains_iff by blast
    then have "no_solver_message opts =
      (''No suitable solver found. Please install one of the solvers: '' @ a) @ s @ b"
      by (simp add: no_solver_message_def)
    then show ?thesis unfolding str_contains_iff by blast
  qed
  then show ?thesis by (simp add: names_all_def list_all_iff)
qed

section \<open>The prober\<close>

lemma simple_network_ok:
  "optimize s = Inr r \<Longrightarrow>
   simple_network optimize s st =
     (st\<lparr>attempted := attempted st @ [s], stdout := stdout st @ [ClearOutput]\<rparr>, Some r)"
  by (simp add: simple_network_def)

lemma loop_all_fail:
  "\<forall>x\<in>set pre. isl (optimize x) \<Longrightarrow>
   \<exists>st'. find_solver_loop optimize (pre @ rest) st = find_solver_loop optimize rest st'
         \<and> attempted st' = attempted st @ pre"
proof (induction pre arbitrary: st)
  case Nil
  show ?case by (rule exI[of _ st]) simp
next
  case (Cons x pre)
  then obtain e where e: "optimize x = Inl e" by (auto simp: isl_def)
  let ?st2 = "st\<lparr>stdout := stdout st @ [Print (''Testing solver: '' @ x)],
                  attempted := attempted st @ [x],
                  stdout := stdout st @ [Print (''Testing solver: '' @ x)] @ [Print (''Solver '' @ x @ '' failed: '' @ exc_message e)]\<rparr>"
  have step: "find_solver_loop optimize ((x # pre) @ rest) st = find_solver_loop optimize (pre @ rest) ?st2"
    using e by (simp add: simple_network_def)
  from Cons.IH[of ?st2] Cons.prems obtain st' where
    "find_solver_loop optimize (pre @ rest) ?st2 = find_solver_loop optimize rest st'"
    "attempted st' = attempted ?st2 @ pre" by auto
  with step show ?case by auto
qed

lemma loop_success:
  "optimize s = Inr r \<Longrightarrow>
   \<exists>st'. find_solver_loop optimize (s # post) st = (st', Some s) \<and> attempted st' = attempted st @ [s]"
  by (simp add: simple_network_ok)

lemma loop_first_success:
  assumes "\<forall>x\<in>set pre. isl (optimize x)" "optimize s = Inr r"
  shows "\<exists>st'. find_solver_loop optimize (pre @ s # post) st = (st', Some s)
      \<and> attempted st' = attempted st @ pre @ [s]"
proof -
  from loop_all_fail[OF assms(1), of "s # post" st] obtain st1 where
    1: "find_solver_loop optimize (pre @ s # post) st = find_solver_loop optimize (s # post) st1"
    "attempted st1 = attempted st @ pre" by blast
  from loop_success[of optimize s r post st1] assms(2) obtain st2 where
    "find_solver_loop optimize (s # post) st1 = (st2, Some s)" "attempted st2 = attempted st1 @ [s]" by blast
  with 1 show ?thesis by simp
qed

lemma loop_all_fail_none:
  assumes "\<forall>x\<in>set opts. isl (optimize x)"
  shows "\<exists>st'. find_solver_loop optimize opts st = (st', None) \<and> attempted st' = attempted st @ opts"
  using loop_all_fail[OF assms, of "[]" st] by simp

lemma all_fail_result:
  "snd (solver_selected (\<lambda>s. Inl (OtherError ''not installed'') :: py_exc + unit) init_prober) =
     Inl (UnboundLocalError ''solver'')"
  by (simp add: solver_selected_def solver_selected_in_def find_solver_in_def solver_options_def
      simple_network_def init_prober_def)

text \<open>
  Claim C3, as amended. When every candidate fails, \<^verbatim>\<open>find_solver\<close> has attempted each
  candidate in order and raises a \<^verbatim>\<open>ValueError\<close> whose message names all of them;
  \<^verbatim>\<open>solver_selected\<close> catches that error and prints its message, so the error that names
  the candidates is not the one that reaches the caller. The source's candidate list is
  the five solver names.
\<close>

theorem all_fail_value_error:
  assumes "\<forall>x\<in>set opts. isl (optimize x)"
  shows "snd (find_solver_in opts optimize st) = Inl (ValueError (no_solver_message opts))
       \<and> names_all opts (no_solver_message opts)
       \<and> attempted (fst (find_solver_in opts optimize st)) = attempted st @ opts
       \<and> stdout (fst (solver_selected_in opts optimize st)) =
           stdout (fst (find_solver_in opts optimize st)) @ [Print (no_solver_message opts)]
       \<and> snd (solver_selected_in opts optimize st) \<noteq> Inl (ValueError (no_solver_message opts))
       \<and> find_solver optimize st =
           find_solver_in [''gurobi'', ''cplex'', ''mosek'', ''highs'', ''glpk''] optimize st
       \<and> solver_selected optimize st =
           solver_selected_in [''gurobi'', ''cplex'', ''mosek'', ''highs'', ''glpk''] optimize st"
proof -
  from loop_all_fail_none[OF assms, of st] obtain st' where
    "find_solver_loop optimize opts st = (st', None)" "attempted st' = attempted st @ opts" by blast
  then show ?thesis
    by (simp add: find_solver_in_def solver_selected_in_def solver_selected_def find_solver_def
        solver_options_def names_all_message)
qed

theorem all_fail_value_error_witness:
  "snd (find_solver (\<lambda>s. Inl (OtherError ''not installed'') :: py_exc + unit) init_prober) =
     Inl (ValueError ''No suitable solver found. Please install one of the solvers: gurobi, cplex, mosek, highs, glpk'')
   \<and> attempted (fst (find_solver (\<lambda>s. Inl (OtherError ''not installed'') :: py_exc + unit) init_prober)) =
     [''gurobi'', ''cplex'', ''mosek'', ''highs'', ''glpk'']"
  using all_fail_value_error [of solver_options "\<lambda>s. Inl (OtherError ''not installed'') :: py_exc + unit" init_prober]
  by (simp add: solver_options_def no_solver_message_def init_prober_def find_solver_def)

text \<open>
  Claim C3 as stated fails: with no solver installed, the error \<^verbatim>\<open>solver_selected\<close> raises
  is the \<^verbatim>\<open>UnboundLocalError\<close> of its \<^verbatim>\<open>return solver\<close>, and its message names no
  candidate.
\<close>

theorem solver_selected_error_counterexample:
  "snd (solver_selected (\<lambda>s. Inl (OtherError ''not installed'') :: py_exc + unit) init_prober) =
     Inl (UnboundLocalError ''solver'')
   \<and> \<not> names_all solver_options (exc_message (UnboundLocalError ''solver''))"
  by (simp add: all_fail_result names_all_def solver_options_def startswith_def)

text \<open>
  Claim C4. The candidates are tried in list order; when every candidate before \<open>s\<close>
  raises and \<open>s\<close> solves, \<^verbatim>\<open>find_solver\<close> and \<^verbatim>\<open>solver_selected\<close> return \<open>s\<close>, and the
  solvers passed to \<^verbatim>\<open>optimize\<close> are exactly those before \<open>s\<close> and \<open>s\<close> itself: none
  of the later ones. The source's candidate list is gurobi, cplex, mosek, highs, glpk.
\<close>

theorem first_success_wins:
  assumes "\<forall>x\<in>set pre. isl (optimize x)" and "optimize s = Inr r"
  shows "snd (find_solver_in (pre @ s # post) optimize st) = Inr s
       \<and> attempted (fst (find_solver_in (pre @ s # post) optimize st)) = attempted st @ pre @ [s]
       \<and> snd (solver_selected_in (pre @ s # post) optimize st) = Inr s
       \<and> attempted (fst (solver_selected_in (pre @ s # post) optimize st)) = attempted st @ pre @ [s]
       \<and> solver_selected optimize st =
           solver_selected_in [''gurobi'', ''cplex'', ''mosek'', ''highs'', ''glpk''] optimize st"
proof -
  from loop_first_success[OF assms, of post st] obtain st' where
    "find_solver_loop optimize (pre @ s # post) st = (st', Some s)"
    "attempted st' = attempted st @ pre @ [s]" by blast
  then show ?thesis
    by (simp add: find_solver_in_def solver_selected_in_def solver_selected_def solver_options_def)
qed

theorem first_success_wins_witness:
  "snd (solver_selected_in [''A'', ''B'', ''C'']
          (\<lambda>s. if s = ''B'' then Inr () else Inl (OtherError ''not installed'')) init_prober) = Inr ''B''
   \<and> attempted (fst (solver_selected_in [''A'', ''B'', ''C'']
          (\<lambda>s. if s = ''B'' then Inr () else Inl (OtherError ''not installed'')) init_prober)) = [''A'', ''B'']"
  using first_success_wins [of "[''A'']" "\<lambda>s. if s = ''B'' then Inr () else Inl (OtherError ''not installed'')"
      "''B''" "()" "[''C'']" init_prober]
  by (simp add: init_prober_def)


section \<open>The converter\<close>

lemma collect_results_Inl:
  "\<exists>r\<in>set rs. isl r \<Longrightarrow> \<exists>e. collect_results acc rs = Inl e \<and> Inl e \<in> set rs"
  by (induction acc rs rule: collect_results.induct) auto

lemma collect_results_Inr:
  "\<forall>r\<in>set rs. \<not> isl r \<Longrightarrow> \<exists>ps. collect_results acc rs = Inr ps"
  by (induction acc rs rule: collect_results.induct) auto

lemma example_allow_list:
  "allow_list (components example_network) (component_attrs example_network) =
     Inr {''buses-v_mag_pu_set'', ''carriers'', ''generators-p_max_pu''}"
  by (simp add: example_network_def varying_inputs_def or_None_def file_name_def startswith_def
      insert_commute)

lemmas conv_defs = convert_excel_to_csv_def example_open_def example_workbook_def broken_workbook_def
  os_listdir_def relevant_def endswith_def startswith_def os_remove_def os_path_join_def
  sheet_names_def convert_sheet_to_csv_def

lemma broken_run:
  "run_futures broken_workbook
     (filter (\<lambda>sheet_name. sheet_name \<in> {''buses-v_mag_pu_set'', ''carriers'', ''generators-p_max_pu''})
        (sheet_names broken_workbook)) ''out'' ([], []) =
   (([(''generators-p_max_pu.csv'', File ''snapshot,Gen1'')],
     [Info ''Converted generators-p_max_pu to CSV.'']),
    [Inl (OtherError ''bad sheet''), Inr ''out/generators-p_max_pu.csv''])"
  by (simp add: conv_defs)

subsection \<open>The deletion loop\<close>

lemma map_of_filter_other:
  "k \<noteq> item \<Longrightarrow> map_of (filter (\<lambda>kv. fst kv \<noteq> item) d) k = map_of d k"
  by (induction d) auto

lemma map_of_filter_same:
  "map_of (filter (\<lambda>kv. fst kv \<noteq> item) d) item = None"
  by (induction d) auto

lemma os_remove_other:
  "os_remove path item d = Inr d' \<Longrightarrow> k \<noteq> item \<Longrightarrow> map_of d' k = map_of d k"
  by (auto simp: os_remove_def map_of_filter_other split: option.splits entry.splits)

lemma os_remove_same:
  "os_remove path item d = Inr d' \<Longrightarrow> map_of d' item = None"
  by (auto simp: os_remove_def map_of_filter_same split: option.splits entry.splits)

lemma os_remove_None:
  "os_remove path item d = Inr d' \<Longrightarrow> map_of d k = None \<Longrightarrow> map_of d' k = None"
  by (cases "k = item") (auto simp: os_remove_same os_remove_other)

lemma clear_relevant_keeps:
  "clear_relevant comps path items d = (d', r) \<Longrightarrow> \<not> relevant comps k \<Longrightarrow>
   map_of d' k = map_of d k"
proof (induction items arbitrary: d)
  case Nil
  then show ?case by simp
next
  case (Cons item items)
  show ?case
  proof (cases "relevant comps item")
    case False
    with Cons show ?thesis by simp
  next
    case True
    then have ne: "k \<noteq> item" using Cons.prems(2) by auto
    show ?thesis
    proof (cases "os_remove path item d")
      case (Inl e)
      with True Cons.prems show ?thesis by simp
    next
      case (Inr d1)
      with True Cons.prems have "clear_relevant comps path items d1 = (d', r)" by simp
      from Cons.IH[OF this Cons.prems(2)] os_remove_other[OF Inr ne] show ?thesis by simp
    qed
  qed
qed

lemma clear_relevant_None:
  "clear_relevant comps path items d = (d', r) \<Longrightarrow> map_of d k = None \<Longrightarrow> map_of d' k = None"
proof (induction items arbitrary: d)
  case Nil
  then show ?case by simp
next
  case (Cons item items)
  show ?case
  proof (cases "relevant comps item")
    case False
    with Cons show ?thesis by simp
  next
    case True
    show ?thesis
    proof (cases "os_remove path item d")
      case (Inl e)
      with True Cons.prems show ?thesis by simp
    next
      case (Inr d1)
      with True Cons.prems have "clear_relevant comps path items d1 = (d', r)" by simp
      from Cons.IH[OF this os_remove_None[OF Inr Cons.prems(2)]] show ?thesis .
    qed
  qed
qed

lemma clear_relevant_removes:
  "clear_relevant comps path items d = (d', None) \<Longrightarrow> relevant comps k \<Longrightarrow> k \<in> set items \<Longrightarrow>
   map_of d' k = None"
proof (induction items arbitrary: d)
  case Nil
  then show ?case by simp
next
  case (Cons item items)
  show ?case
  proof (cases "relevant comps item")
    case False
    with Cons.prems have "clear_relevant comps path items d = (d', None)" "k \<in> set items" by auto
    from Cons.IH[OF this(1) Cons.prems(2) this(2)] show ?thesis .
  next
    case True
    show ?thesis
    proof (cases "os_remove path item d")
      case (Inl e)
      with True Cons.prems show ?thesis by simp
    next
      case (Inr d1)
      with True Cons.prems have c: "clear_relevant comps path items d1 = (d', None)" by simp
      show ?thesis
      proof (cases "k = item")
        case True
        with os_remove_same[OF Inr] have "map_of d1 k = None" by simp
        from clear_relevant_None[OF c this] show ?thesis .
      next
        case False
        with Cons.prems have "k \<in> set items" by simp
        from Cons.IH[OF c Cons.prems(2) this] show ?thesis .
      qed
    qed
  qed
qed

text \<open>What the deletion loop does to a directory it lists in full.\<close>

lemma deletion_step:
  assumes "clear_relevant comps path (os_listdir d) d = (d', None)"
  shows "map_of d' k = (if relevant comps k then None else map_of d k)"
proof (cases "relevant comps k")
  case False
  with clear_relevant_keeps[OF assms] show ?thesis by simp
next
  case True
  show ?thesis
  proof (cases "k \<in> set (os_listdir d)")
    case True
    from clear_relevant_removes[OF assms \<open>relevant comps k\<close> this] \<open>relevant comps k\<close>
    show ?thesis by simp
  next
    case False
    then have "map_of d k = None" by (simp add: os_listdir_def map_of_eq_None_iff)
    from clear_relevant_None[OF assms this] \<open>relevant comps k\<close> show ?thesis by simp
  qed
qed

subsection \<open>The allow-list and the converted sheets\<close>

text \<open>
  Claim C1, evaluated on the example network. \<^verbatim>\<open>list(...) or [None]\<close> gives \<^verbatim>\<open>None\<close>
  only for an empty list, so a component type with a time-varying input attribute
  contributes its \<open>list_name-attribute\<close> names and not its bare list name: the allow-list
  has \<open>carriers\<close> but neither \<open>generators\<close> nor \<open>buses\<close>, and of the three
  sheets of the workbook the one named \<open>generators\<close> is not written.
\<close>

theorem bare_list_name_not_allowed:
  "allow_list (components example_network) (component_attrs example_network) =
     Inr {''buses-v_mag_pu_set'', ''carriers'', ''generators-p_max_pu''}
   \<and> ''generators'' \<notin> {''buses-v_mag_pu_set'', ''carriers'', ''generators-p_max_pu''}
   \<and> sheet_names example_workbook = [''generators'', ''generators-p_max_pu'', ''carriers'']
   \<and> folder (fst (convert_excel_to_csv example_network example_open ''network.xlsx'' ''out''
                    \<lparr>folder = Missing, logged = []\<rparr>)) =
       Directory [(''generators-p_max_pu.csv'', File ''snapshot,Gen1''),
                  (''carriers.csv'', File ''name,co2_emissions'')]"
  by (simp add: example_allow_list conv_defs)

subsection \<open>Exceptions and the return value\<close>

text \<open>
  Claim C2, as amended. An exception of the allow-list computation or of the deletion
  loop is raised before the \<^verbatim>\<open>try\<close> and reaches the caller. Once the workbook is open, an
  exception of a sheet conversion is caught: every submitted conversion has run, the
  error of the first failing one is logged, the workbook is closed and the empty list is
  returned; when no conversion fails the output directory path is returned.
\<close>

theorem convert_exception_handling:
  "(allow_list (components n) (component_attrs n) = Inl e \<longrightarrow>
      convert_excel_to_csv n ExcelFile excel_file_path csv_folder_path st = (st, Inl e))
   \<and> (allow_list (components n) (component_attrs n) = Inr comps \<and>
      os_makedirs csv_folder_path (folder st) = Inr d \<and>
      clear_relevant comps csv_folder_path (os_listdir d) d = (d1, Some e) \<longrightarrow>
      convert_excel_to_csv n ExcelFile excel_file_path csv_folder_path st =
        (st\<lparr>folder := Directory d1\<rparr>, Inl e))
   \<and> (allow_list (components n) (component_attrs n) = Inr comps \<and>
      os_makedirs csv_folder_path (folder st) = Inr d \<and>
      clear_relevant comps csv_folder_path (os_listdir d) d = (d1, None) \<and>
      ExcelFile excel_file_path = Inr xls \<and>
      run_futures xls (filter (\<lambda>sheet_name. sheet_name \<in> comps) (sheet_names xls))
        csv_folder_path (d1, logged st) = ((d2, lg), futures) \<longrightarrow>
      ((\<exists>r\<in>set futures. isl r) \<longrightarrow>
         (\<exists>e'. Inl e' \<in> set futures \<and>
            convert_excel_to_csv n ExcelFile excel_file_path csv_folder_path st =
              (\<lparr>folder = Directory d2,
                logged = lg @ [Error (''Error converting Excel to CSV: '' @ exc_message e'),
                               Stdout ''Excel file is closed'']\<rparr>,
               Inr (PyList []))))
      \<and> ((\<forall>r\<in>set futures. \<not> isl r) \<longrightarrow>
         snd (convert_excel_to_csv n ExcelFile excel_file_path csv_folder_path st) =
           Inr (PyStr csv_folder_path)))"
proof (intro conjI impI)
  assume "allow_list (components n) (component_attrs n) = Inl e"
  then show "convert_excel_to_csv n ExcelFile excel_file_path csv_folder_path st = (st, Inl e)"
    by (simp add: convert_excel_to_csv_def)
next
  assume "allow_list (components n) (component_attrs n) = Inr comps \<and>
      os_makedirs csv_folder_path (folder st) = Inr d \<and>
      clear_relevant comps csv_folder_path (os_listdir d) d = (d1, Some e)"
  then show "convert_excel_to_csv n ExcelFile excel_file_path csv_folder_path st =
        (st\<lparr>folder := Directory d1\<rparr>, Inl e)"
    by (simp add: convert_excel_to_csv_def)
next
  assume h: "allow_list (components n) (component_attrs n) = Inr comps \<and>
      os_makedirs csv_folder_path (folder st) = Inr d \<and>
      clear_relevant comps csv_folder_path (os_listdir d) d = (d1, None) \<and>
      ExcelFile excel_file_path = Inr xls \<and>
      run_futures xls (filter (\<lambda>sheet_name. sheet_name \<in> comps) (sheet_names xls))
        csv_folder_path (d1, logged st) = ((d2, lg), futures)"
    and "\<exists>r\<in>set futures. isl r"
  from collect_results_Inl[OF this(2), of "[]"] obtain e' where
    e': "collect_results [] futures = Inl e'" "Inl e' \<in> set futures" by blast
  from h e'(1) have "convert_excel_to_csv n ExcelFile excel_file_path csv_folder_path st =
              (\<lparr>folder = Directory d2,
                logged = lg @ [Error (''Error converting Excel to CSV: '' @ exc_message e'),
                               Stdout ''Excel file is closed'']\<rparr>,
               Inr (PyList []))"
    by (simp add: convert_excel_to_csv_def)
  with e'(2) show "\<exists>e'. Inl e' \<in> set futures \<and>
            convert_excel_to_csv n ExcelFile excel_file_path csv_folder_path st =
              (\<lparr>folder = Directory d2,
                logged = lg @ [Error (''Error converting Excel to CSV: '' @ exc_message e'),
                               Stdout ''Excel file is closed'']\<rparr>,
               Inr (PyList []))" by blast
next
  assume h: "allow_list (components n) (component_attrs n) = Inr comps \<and>
      os_makedirs csv_folder_path (folder st) = Inr d \<and>
      clear_relevant comps csv_folder_path (os_listdir d) d = (d1, None) \<and>
      ExcelFile excel_file_path = Inr xls \<and>
      run_futures xls (filter (\<lambda>sheet_name. sheet_name \<in> comps) (sheet_names xls))
        csv_folder_path (d1, logged st) = ((d2, lg), futures)"
    and "\<forall>r\<in>set futures. \<not> isl r"
  from collect_results_Inr[OF this(2), of "[]"] obtain ps where
    "collect_results [] futures = Inr ps" by blast
  with h show "snd (convert_excel_to_csv n ExcelFile excel_file_path csv_folder_path st) =
           Inr (PyStr csv_folder_path)"
    by (simp add: convert_excel_to_csv_def)
qed

theorem convert_exception_handling_witness:
  "snd (convert_excel_to_csv example_network example_open ''broken.xlsx'' ''out''
          \<lparr>folder = Missing, logged = []\<rparr>) = Inr (PyList [])
   \<and> folder (fst (convert_excel_to_csv example_network example_open ''broken.xlsx'' ''out''
          \<lparr>folder = Missing, logged = []\<rparr>)) =
       Directory [(''generators-p_max_pu.csv'', File ''snapshot,Gen1'')]"
  using convert_exception_handling [where n = example_network and ExcelFile = example_open
      and excel_file_path = "''broken.xlsx''" and csv_folder_path = "''out''"
      and st = "\<lparr>folder = Missing, logged = []\<rparr>"
      and comps = "{''buses-v_mag_pu_set'', ''carriers'', ''generators-p_max_pu''}"
      and d = "[]" and ?d1.0 = "[]" and xls = broken_workbook
      and ?d2.0 = "[(''generators-p_max_pu.csv'', File ''snapshot,Gen1'')]"
      and lg = "[Info ''Converted generators-p_max_pu to CSV.'']"
      and futures = "[Inl (OtherError ''bad sheet''), Inr ''out/generators-p_max_pu.csv'']"]
    example_allow_list broken_run
  by (auto simp: example_open_def os_listdir_def)

text \<open>
  Claim C2 as stated fails: when the output directory holds a directory named
  \<open>carriers.csv\<close>, the \<^verbatim>\<open>os.remove\<close> of the deletion loop raises and
  \<^verbatim>\<open>convert_excel_to_csv\<close> passes the exception on.
\<close>

theorem deletion_error_propagates_counterexample:
  "snd (convert_excel_to_csv example_network example_open ''network.xlsx'' ''out''
          \<lparr>folder = Directory [(''carriers.csv'', Folder)], logged = []\<rparr>) =
     Inl (IsADirectoryError ''out/carriers.csv'')"
  by (simp add: example_allow_list conv_defs)

text \<open>
  Claim C7, evaluated where the workbook does not open. The handler's \<^verbatim>\<open>return []\<close> is
  followed by the \<^verbatim>\<open>finally\<close> clause, whose test \<^verbatim>\<open>xls is not None\<close> reads a local that
  was never bound: the call ends in \<^verbatim>\<open>UnboundLocalError\<close> and returns nothing.
\<close>

theorem open_failure_raises:
  "example_open ''nope.xlsx'' = Inl (FileNotFoundError ''nope.xlsx'')
   \<and> snd (convert_excel_to_csv example_network example_open ''nope.xlsx'' ''out''
            \<lparr>folder = Missing, logged = []\<rparr>) = Inl (UnboundLocalError ''xls'')"
  by (simp add: example_allow_list conv_defs)

text \<open>
  Claim C8, evaluated on an output directory with the files \<open>car.csvriers.csv\<close> and
  \<open>notes.csv\<close>. \<^verbatim>\<open>item.replace(".csv", "")\<close> takes out every occurrence of
  \<open>.csv\<close>, so the first file, whose base name \<open>car.csvriers\<close> is not in the
  allow-list, is taken for \<open>carriers\<close> and deleted; the second is kept.
\<close>

theorem deletion_takes_other_csv:
  "str_replace ''.csv'' [] ''car.csvriers.csv'' = ''carriers''
   \<and> convert_excel_to_csv example_network example_open ''network.xlsx'' ''out''
        \<lparr>folder = Directory [(''car.csvriers.csv'', File ''old''), (''notes.csv'', File ''keep'')],
         logged = []\<rparr> =
       (\<lparr>folder = Directory [(''notes.csv'', File ''keep''),
                             (''generators-p_max_pu.csv'', File ''snapshot,Gen1''),
                             (''carriers.csv'', File ''name,co2_emissions'')],
         logged = [Info ''Converted generators-p_max_pu to CSV.'',
                   Info ''Converted carriers to CSV.'',
                   Stdout ''Excel file is closed'',
                   Info (''Conversion complete. CSV files are saved in '' @ [CHR 0x27] @ ''out'' @ [CHR 0x27])]\<rparr>,
        Inr (PyStr ''out''))"
  by (simp add: example_allow_list conv_defs)

section \<open>The viewer\<close>

lemma getitem_columns_ok:
  "set labels \<subseteq> fst ` set cs \<Longrightarrow>
   \<exists>r. getitem_columns cs labels = Inr r \<and> map fst r = labels
       \<and> (\<forall>a\<in>set labels. map_of r a = map_of cs a)"
proof (induction labels)
  case Nil
  then show ?case by simp
next
  case (Cons a labels)
  then obtain r where r: "getitem_columns cs labels = Inr r" "map fst r = labels"
    "\<forall>a\<in>set labels. map_of r a = map_of cs a" by auto
  from Cons.prems have "a \<in> fst ` set cs" by simp
  then obtain col where col: "map_of cs a = Some col"
    by (metis domD dom_map_of_conv_image_fst)
  with r show ?case by auto
qed

lemma getitem_ok:
  assumes "set labels \<subseteq> fst ` set (columns df)"
  shows "\<exists>shown. getitem df labels = Inr shown \<and> index shown = index df
           \<and> map fst (columns shown) = labels
           \<and> (\<forall>a\<in>set labels. map_of (columns shown) a = map_of (columns df) a)"
proof -
  from getitem_columns_ok[OF assms] obtain r where
    "getitem_columns (columns df) labels = Inr r" "map fst r = labels"
    "\<forall>a\<in>set labels. map_of r a = map_of (columns df) a" by blast
  then show ?thesis by (simp add: getitem_def)
qed

lemma getitem_columns_missing:
  "\<not> set labels \<subseteq> fst ` set cs \<Longrightarrow>
   \<exists>k. getitem_columns cs labels = Inl (KeyError k) \<and> k \<in> set labels \<and> k \<notin> fst ` set cs"
proof (induction labels)
  case Nil
  then show ?case by simp
next
  case (Cons a labels)
  show ?case
  proof (cases "map_of cs a")
    case None
    then have "a \<notin> fst ` set cs" by (simp add: map_of_eq_None_iff)
    with None show ?thesis by auto
  next
    case (Some col)
    then have "a \<in> fst ` set cs" by (metis map_of_eq_None_iff option.distinct(1))
    with Cons.prems have "\<not> set labels \<subseteq> fst ` set cs" by simp
    from Cons.IH[OF this] obtain k where
      "getitem_columns cs labels = Inl (KeyError k)" "k \<in> set labels" "k \<notin> fst ` set cs" by blast
    with Some show ?thesis by auto
  qed
qed

lemma getitem_missing:
  assumes "\<not> set labels \<subseteq> fst ` set (columns df)"
  shows "\<exists>k. getitem df labels = Inl (KeyError k) \<and> k \<in> set labels \<and> k \<notin> fst ` set (columns df)"
proof -
  from getitem_columns_missing[OF assms] obtain k where
    "getitem_columns (columns df) labels = Inl (KeyError k)" "k \<in> set labels"
    "k \<notin> fst ` set (columns df)" by blast
  then show ?thesis by (auto simp: getitem_def)
qed

lemmas view_defs = example_network_def extended_network_def valid_attributes_of_def static_attributes_of_def
  varying_attributes_of_def startswith_def on_confirm_clicked_def on_new_confirm_clicked_def
  type_options_def view_type_def getitem_def no_attributes_warning_def empty_df_def
  time_series_figure_def

lemma example_viewer:
  "pypsa_viewer example_network =
     Inr \<lparr>return_file = None,
          display = [Cleared, DisplayedSelectors [''Bus'', ''Carrier'', ''Generator''] ''Bus''
                       [''Input'', ''Output''] [''static'', ''varying'']]\<rparr>"
  by (simp add: pypsa_viewer_def example_network_def io_types_def type_options_def
      list_le_def list_less_def less_eq_char_def less_char_def)

text \<open>
  Claim C5, as amended. On the static path the attribute list is the index of the rows
  whose status contains the direction, without \<open>name\<close>, filtered by the columns of the
  generator table whatever component is selected. When the list is empty the warning is
  printed and nothing is stored. When it is not empty and the selected component's table
  has a column for each of its names, these columns of the selected table are displayed
  and stored in \<open>return_file\<close>. When it is not empty and the selected table lacks one
  of them, \<^verbatim>\<open>component_data[valid_attributes]\<close> raises \<^verbatim>\<open>KeyError\<close>: the output has been
  cleared, nothing is displayed and \<open>return_file\<close> is what it was.
\<close>

theorem static_path_outcomes:
  assumes "type_var \<noteq> ''varying''"
    and "map_of (component_attrs network) val = Some df"
    and "map_of (components network) val = Some list_name"
    and "map_of (static_data network) list_name = Some component_data"
    and "map_of (static_data network) ''generators'' = Some generators"
    and "valid = filter (\<lambda>attr. attr \<in> fst ` set (columns generators))
                   (remove1 ''name'' (map attr_name (filter (\<lambda>a. str_contains io_data (status a)) df)))"
  shows "(valid = [] \<longrightarrow>
            on_confirm_clicked network val io_data type_var st =
              (st\<lparr>display := display st @
                    [Cleared,
                     Printed ''Warning: None of the static attributes are found in network.generators columns'']\<rparr>,
               Inr ()))
       \<and> (valid \<noteq> [] \<and> set valid \<subseteq> fst ` set (columns component_data) \<longrightarrow>
            (\<exists>shown. index shown = index component_data
                \<and> map fst (columns shown) = valid
                \<and> (\<forall>a\<in>set valid. map_of (columns shown) a = map_of (columns component_data) a)
                \<and> on_confirm_clicked network val io_data type_var st =
                    (st\<lparr>return_file := Some shown,
                        display := display st @ [Cleared, Displayed shown]\<rparr>, Inr ())))
       \<and> (valid \<noteq> [] \<and> \<not> set valid \<subseteq> fst ` set (columns component_data) \<longrightarrow>
            (\<exists>k. k \<in> set valid \<and> k \<notin> fst ` set (columns component_data)
                \<and> on_confirm_clicked network val io_data type_var st =
                    (st\<lparr>display := display st @ [Cleared]\<rparr>, Inl (KeyError k))))"
proof -
  have v: "valid_attributes_of generators (static_attributes_of io_data df) = valid"
    by (simp add: valid_attributes_of_def static_attributes_of_def assms(6))
  have t: "type_var \<noteq> type_options ! 1"
    using assms(1) by (simp add: type_options_def)
  show ?thesis
  proof (intro conjI impI)
    assume "valid = []"
    with v t assms(2-5) show "on_confirm_clicked network val io_data type_var st =
              (st\<lparr>display := display st @
                    [Cleared,
                     Printed ''Warning: None of the static attributes are found in network.generators columns'']\<rparr>,
               Inr ())"
      by (simp add: on_confirm_clicked_def no_attributes_warning_def)
  next
    assume a: "valid \<noteq> [] \<and> set valid \<subseteq> fst ` set (columns component_data)"
    then have ne: "valid \<noteq> []" and sub: "set valid \<subseteq> fst ` set (columns component_data)"
      by simp_all
    from getitem_ok[OF sub] obtain shown where s:
      "getitem component_data valid = Inr shown" "index shown = index component_data"
      "map fst (columns shown) = valid"
      "\<forall>a\<in>set valid. map_of (columns shown) a = map_of (columns component_data) a" by blast
    from v t ne assms(2-5) s(1) have "on_confirm_clicked network val io_data type_var st =
                    (st\<lparr>return_file := Some shown,
                        display := display st @ [Cleared, Displayed shown]\<rparr>, Inr ())"
      by (simp add: on_confirm_clicked_def)
    with s(2-4) show "\<exists>shown. index shown = index component_data
                \<and> map fst (columns shown) = valid
                \<and> (\<forall>a\<in>set valid. map_of (columns shown) a = map_of (columns component_data) a)
                \<and> on_confirm_clicked network val io_data type_var st =
                    (st\<lparr>return_file := Some shown,
                        display := display st @ [Cleared, Displayed shown]\<rparr>, Inr ())" by blast
  next
    assume a: "valid \<noteq> [] \<and> \<not> set valid \<subseteq> fst ` set (columns component_data)"
    then have ne: "valid \<noteq> []" and nsub: "\<not> set valid \<subseteq> fst ` set (columns component_data)"
      by simp_all
    from getitem_missing[OF nsub] obtain k where k:
      "getitem component_data valid = Inl (KeyError k)" "k \<in> set valid"
      "k \<notin> fst ` set (columns component_data)" by blast
    from v t ne assms(2-5) k(1) have "on_confirm_clicked network val io_data type_var st =
                    (st\<lparr>display := display st @ [Cleared]\<rparr>, Inl (KeyError k))"
      by (simp add: on_confirm_clicked_def)
    with k(2,3) show "\<exists>k. k \<in> set valid \<and> k \<notin> fst ` set (columns component_data)
                \<and> on_confirm_clicked network val io_data type_var st =
                    (st\<lparr>display := display st @ [Cleared]\<rparr>, Inl (KeyError k))" by blast
  qed
qed

theorem static_path_outcomes_witness:
  "on_confirm_clicked example_network ''Bus'' ''Output'' ''static''
      \<lparr>return_file = None, display = []\<rparr> =
     (\<lparr>return_file = None,
       display = [Cleared,
                  Printed ''Warning: None of the static attributes are found in network.generators columns'']\<rparr>,
      Inr ())
   \<and> on_confirm_clicked example_network ''Generator'' ''Input'' ''static''
      \<lparr>return_file = None, display = []\<rparr> =
     (\<lparr>return_file = Some \<lparr>index = [''Gen1'', ''Gen2''],
                            columns = [(''bus'', [''Bus1'', ''Bus1'']), (''p_nom'', [''30'', ''40'']),
                                       (''carrier'', [''AC'', ''AC'']), (''p_max_pu'', [''1.0'', ''1.0''])]\<rparr>,
       display = [Cleared,
                  Displayed \<lparr>index = [''Gen1'', ''Gen2''],
                             columns = [(''bus'', [''Bus1'', ''Bus1'']), (''p_nom'', [''30'', ''40'']),
                                        (''carrier'', [''AC'', ''AC'']), (''p_max_pu'', [''1.0'', ''1.0''])]\<rparr>]\<rparr>,
      Inr ())
   \<and> on_confirm_clicked example_network ''Bus'' ''Input'' ''static''
      \<lparr>return_file = None, display = []\<rparr> =
     (\<lparr>return_file = Some \<lparr>index = [''Bus1''], columns = [(''carrier'', [''AC''])]\<rparr>,
       display = [Cleared, Displayed \<lparr>index = [''Bus1''], columns = [(''carrier'', [''AC''])]\<rparr>]\<rparr>,
      Inr ())
   \<and> on_confirm_clicked extended_network ''Bus'' ''Output'' ''static''
      \<lparr>return_file = Some \<lparr>index = [''Bus1''], columns = [(''carrier'', [''AC''])]\<rparr>,
       display = []\<rparr> =
     (\<lparr>return_file = Some \<lparr>index = [''Bus1''], columns = [(''carrier'', [''AC''])]\<rparr>,
       display = [Cleared]\<rparr>,
      Inl (KeyError ''p''))"
  using static_path_outcomes [where network = example_network and val = "''Bus''"
      and io_data = "''Output''" and type_var = "''static''"
      and st = "\<lparr>return_file = None, display = []\<rparr>"
      and list_name = "''buses''"
      and df = "the (map_of (component_attrs example_network) ''Bus'')"
      and component_data = "the (map_of (static_data example_network) ''buses'')"
      and generators = "the (map_of (static_data example_network) ''generators'')"
      and valid = "[]"]
    static_path_outcomes [where network = example_network and val = "''Generator''"
      and io_data = "''Input''" and type_var = "''static''"
      and st = "\<lparr>return_file = None, display = []\<rparr>"
      and list_name = "''generators''"
      and df = "the (map_of (component_attrs example_network) ''Generator'')"
      and component_data = "the (map_of (static_data example_network) ''generators'')"
      and generators = "the (map_of (static_data example_network) ''generators'')"
      and valid = "[''bus'', ''p_nom'', ''carrier'', ''p_max_pu'']"]
    static_path_outcomes [where network = example_network and val = "''Bus''"
      and io_data = "''Input''" and type_var = "''static''"
      and st = "\<lparr>return_file = None, display = []\<rparr>"
      and list_name = "''buses''"
      and df = "the (map_of (component_attrs example_network) ''Bus'')"
      and component_data = "the (map_of (static_data example_network) ''buses'')"
      and generators = "the (map_of (static_data example_network) ''generators'')"
      and valid = "[''carrier'']"]
    static_path_outcomes [where network = extended_network and val = "''Bus''"
      and io_data = "''Output''" and type_var = "''static''"
      and st = "\<lparr>return_file = Some \<lparr>index = [''Bus1''], columns = [(''carrier'', [''AC''])]\<rparr>,
                 display = []\<rparr>"
      and list_name = "''buses''"
      and df = "the (map_of (component_attrs extended_network) ''Bus'')"
      and component_data = "the (map_of (static_data extended_network) ''buses'')"
      and generators = "the (map_of (static_data extended_network) ''generators'')"
      and valid = "[''p'']"]
  by (simp add: view_defs)

text \<open>
  Claim C5 as stated fails: with a column \<open>p\<close> added to the generator table, the static
  view of the outputs of \<open>Bus\<close> has the non-empty attribute list \<open>p\<close>, the bus table
  has no such column, and the handler raises \<^verbatim>\<open>KeyError\<close> with nothing displayed or
  stored.
\<close>

theorem static_path_missing_column_counterexample:
  "valid_attributes_of (the (map_of (static_data extended_network) ''generators''))
      (static_attributes_of ''Output'' (the (map_of (component_attrs extended_network) ''Bus''))) = [''p'']
   \<and> on_confirm_clicked extended_network ''Bus'' ''Output'' ''static''
        \<lparr>return_file = None, display = []\<rparr> =
       (\<lparr>return_file = None, display = [Cleared]\<rparr>, Inl (KeyError ''p''))"
  by (simp add: view_defs)

text \<open>
  Claim C6. On the varying path, with the series of the chosen variable fetched: in table
  mode the series is stored and displayed, empty or not; in plot mode an empty series
  prints \<open>No data to plot\<close> and sets \<open>return_file\<close> to none; a non-empty one shows
  a figure with one line trace per column of the series, over its index, titled with the
  component type and the variable name, and stores the series.
\<close>

theorem varying_path_render:
  assumes "map_of (components network) val = Some list_name"
    and "map_of (dynamic_data network) list_name = Some series"
    and "map_of series new_selected_dropdown = Some time_data"
  shows "on_new_confirm_clicked network val ''varying'' new_selected_dropdown ''Table'' st =
           (st\<lparr>return_file := Some time_data,
               display := display st @ [Cleared, Displayed time_data]\<rparr>, Inr ())
       \<and> (empty_df time_data \<longrightarrow>
            on_new_confirm_clicked network val ''varying'' new_selected_dropdown ''Plot'' st =
              (st\<lparr>return_file := None,
                  display := display st @ [Cleared, Printed ''No data to plot'']\<rparr>, Inr ()))
       \<and> (\<not> empty_df time_data \<longrightarrow>
            (\<exists>fig. on_new_confirm_clicked network val ''varying'' new_selected_dropdown ''Plot'' st =
                     (st\<lparr>return_file := Some time_data,
                         display := display st @ [Cleared, Shown fig]\<rparr>, Inr ())
                \<and> map name (traces fig) = map fst (columns time_data)
                \<and> map y (traces fig) = map snd (columns time_data)
                \<and> (\<forall>t\<in>set (traces fig). mode t = ''lines'' \<and> x t = index time_data)
                \<and> title fig = val @ '' '' @ new_selected_dropdown @ '' Time Series''))"
proof (intro conjI impI)
  show "on_new_confirm_clicked network val ''varying'' new_selected_dropdown ''Table'' st =
           (st\<lparr>return_file := Some time_data,
               display := display st @ [Cleared, Displayed time_data]\<rparr>, Inr ())"
    using assms by (simp add: on_new_confirm_clicked_def)
next
  assume "empty_df time_data"
  with assms show "on_new_confirm_clicked network val ''varying'' new_selected_dropdown ''Plot'' st =
              (st\<lparr>return_file := None,
                  display := display st @ [Cleared, Printed ''No data to plot'']\<rparr>, Inr ())"
    by (simp add: on_new_confirm_clicked_def)
next
  assume ne: "\<not> empty_df time_data"
  let ?fig = "time_series_figure val new_selected_dropdown time_data"
  have "on_new_confirm_clicked network val ''varying'' new_selected_dropdown ''Plot'' st =
                     (st\<lparr>return_file := Some time_data,
                         display := display st @ [Cleared, Shown ?fig]\<rparr>, Inr ())"
    using assms ne by (simp add: on_new_confirm_clicked_def)
  moreover have "map name (traces ?fig) = map fst (columns time_data)"
    "map y (traces ?fig) = map snd (columns time_data)"
    "\<forall>t\<in>set (traces ?fig). mode t = ''lines'' \<and> x t = index time_data"
    "title ?fig = val @ '' '' @ new_selected_dropdown @ '' Time Series''"
    by (auto simp: time_series_figure_def)
  ultimately show "\<exists>fig. on_new_confirm_clicked network val ''varying'' new_selected_dropdown ''Plot'' st =
                     (st\<lparr>return_file := Some time_data,
                         display := display st @ [Cleared, Shown fig]\<rparr>, Inr ())
                \<and> map name (traces fig) = map fst (columns time_data)
                \<and> map y (traces fig) = map snd (columns time_data)
                \<and> (\<forall>t\<in>set (traces fig). mode t = ''lines'' \<and> x t = index time_data)
                \<and> title fig = val @ '' '' @ new_selected_dropdown @ '' Time Series''"
    by blast
qed

theorem varying_path_render_witness:
  "on_new_confirm_clicked example_network ''Generator'' ''varying'' ''p_max_pu'' ''Table''
      \<lparr>return_file = None, display = []\<rparr> =
     (\<lparr>return_file = Some \<lparr>index = [''t0'', ''t1''], columns = []\<rparr>,
       display = [Cleared, Displayed \<lparr>index = [''t0'', ''t1''], columns = []\<rparr>]\<rparr>, Inr ())
   \<and> on_new_confirm_clicked example_network ''Generator'' ''varying'' ''p_max_pu'' ''Plot''
      \<lparr>return_file = Some \<lparr>index = [''t0'', ''t1''], columns = []\<rparr>, display = []\<rparr> =
     (\<lparr>return_file = None, display = [Cleared, Printed ''No data to plot'']\<rparr>, Inr ())
   \<and> on_new_confirm_clicked example_network ''Generator'' ''varying'' ''p'' ''Plot''
      \<lparr>return_file = None, display = []\<rparr> =
     (\<lparr>return_file = Some \<lparr>index = [''t0'', ''t1''],
                            columns = [(''Gen1'', [''10'', ''15'']), (''Gen2'', [''0'', ''5''])]\<rparr>,
       display = [Cleared,
                  Shown \<lparr>traces = [\<lparr>x = [''t0'', ''t1''], y = [''10'', ''15''], mode = ''lines'', name = ''Gen1''\<rparr>,
                                   \<lparr>x = [''t0'', ''t1''], y = [''0'', ''5''], mode = ''lines'', name = ''Gen2''\<rparr>],
                         title = ''Generator p Time Series'', xaxis_title = ''Time'',
                         yaxis_title = ''Value''\<rparr>]\<rparr>, Inr ())"
  using varying_path_render [where network = example_network and val = "''Generator''"
      and list_name = "''generators''"
      and series = "the (map_of (dynamic_data example_network) ''generators'')"
      and new_selected_dropdown = "''p_max_pu''"
      and time_data = "\<lparr>index = [''t0'', ''t1''], columns = []\<rparr>"
      and st = "\<lparr>return_file = None, display = []\<rparr>"]
    varying_path_render [where network = example_network and val = "''Generator''"
      and list_name = "''generators''"
      and series = "the (map_of (dynamic_data example_network) ''generators'')"
      and new_selected_dropdown = "''p_max_pu''"
      and time_data = "\<lparr>index = [''t0'', ''t1''], columns = []\<rparr>"
      and st = "\<lparr>return_file = Some \<lparr>index = [''t0'', ''t1''], columns = []\<rparr>, display = []\<rparr>"]
    varying_path_render [where network = example_network and val = "''Generator''"
      and list_name = "''generators''"
      and series = "the (map_of (dynamic_data example_network) ''generators'')"
      and new_selected_dropdown = "''p''"
      and time_data = "\<lparr>index = [''t0'', ''t1''],
                         columns = [(''Gen1'', [''10'', ''15'']), (''Gen2'', [''0'', ''5''])]\<rparr>"
      and st = "\<lparr>return_file = None, display = []\<rparr>"]
  by (simp add: view_defs)

text \<open>
  Claim C9. In the warning branch of the static path the handler only clears the output
  and prints: \<open>return_file\<close> is what it was before the click, so a dataset stored by an
  earlier click of the session is still there.
\<close>

theorem warning_keeps_return_file:
  assumes "type_var \<noteq> ''varying''"
    and "map_of (component_attrs network) val = Some df"
    and "map_of (components network) val = Some list_name"
    and "map_of (static_data network) list_name = Some component_data"
    and "map_of (static_data network) ''generators'' = Some generators"
    and "valid_attributes_of generators (static_attributes_of io_data df) = []"
  shows "on_confirm_clicked network val io_data type_var st =
           (st\<lparr>display := display st @ [Cleared, Printed no_attributes_warning]\<rparr>, Inr ())
       \<and> return_file (fst (on_confirm_clicked network val io_data type_var st)) = return_file st"
  using assms by (simp add: on_confirm_clicked_def type_options_def)

theorem warning_keeps_return_file_witness:
  "return_file (fst (on_confirm_clicked example_network ''Bus'' ''Output'' ''static''
      (fst (on_confirm_clicked example_network ''Generator'' ''Input'' ''static''
              \<lparr>return_file = None,
               display = [Cleared, DisplayedSelectors [''Bus'', ''Carrier'', ''Generator''] ''Bus''
                            [''Input'', ''Output''] [''static'', ''varying'']]\<rparr>)))) =
     Some \<lparr>index = [''Gen1'', ''Gen2''],
           columns = [(''bus'', [''Bus1'', ''Bus1'']), (''p_nom'', [''30'', ''40'']),
                      (''carrier'', [''AC'', ''AC'']), (''p_max_pu'', [''1.0'', ''1.0''])]\<rparr>"
  using warning_keeps_return_file [where network = example_network and val = "''Bus''"
      and io_data = "''Output''" and type_var = "''static''" and list_name = "''buses''"
      and df = "the (map_of (component_attrs example_network) ''Bus'')"
      and component_data = "the (map_of (static_data example_network) ''buses'')"
      and generators = "the (map_of (static_data example_network) ''generators'')"
      and st = "fst (on_confirm_clicked example_network ''Generator'' ''Input'' ''static''
              \<lparr>return_file = None,
               display = [Cleared, DisplayedSelectors [''Bus'', ''Carrier'', ''Generator''] ''Bus''
                            [''Input'', ''Output''] [''static'', ''varying'']]\<rparr>)"]
  by (simp add: view_defs)

text \<open>
  Claim C10. When the selected component and direction have no time-varying attribute
  and \<open>varying\<close> is confirmed, \<^verbatim>\<open>varying_attributes[0]\<close> raises \<^verbatim>\<open>IndexError\<close>: the
  handler ends there, with nothing displayed and the record untouched.
\<close>

theorem varying_without_attributes_raises:
  assumes "map_of (component_attrs network) val = Some df"
    and "varying_attributes_of io_data df = []"
    and "type_var = ''varying''"
  shows "on_confirm_clicked network val io_data type_var st = (st, Inl IndexError)"
  using assms by (simp add: on_confirm_clicked_def type_options_def)

theorem varying_without_attributes_raises_witness:
  "on_confirm_clicked example_network ''Carrier'' ''Input'' ''varying''
      \<lparr>return_file = None, display = []\<rparr> =
     (\<lparr>return_file = None, display = []\<rparr>, Inl IndexError)"
  using varying_without_attributes_raises [where network = example_network and val = "''Carrier''"
      and io_data = "''Input''" and type_var = "''varying''"
      and df = "the (map_of (component_attrs example_network) ''Carrier'')"
      and st = "\<lparr>return_file = None, display = []\<rparr>"]
  by (simp add: view_defs)

end
